theory Spec2Isabelle
  imports Complex_Main "HOL-Library.Sublist"
begin

section \<open>Campus Connect: the chat pipeline of main.py\<close>

text \<open>
  The development embeds the real-time chat pipeline of \<^verbatim>\<open>main.py\<close>: the moderation
  function, the connection manager, one iteration of the receive loop, the loop, the
  endpoint around it, and the search query over the table of \<^verbatim>\<open>database.py\<close>.

  Python strings are modelled as \<^typ>\<open>string\<close>. Exceptions are values of the type
  \<open>exc\<close>; a function that can raise returns \<open>exc + 'a\<close> or pairs an outcome with
  the state it leaves behind. Everything the program does to the outside (a send on a
  channel, a commit, a call of the classifier) is recorded, in program order, in the
  \<open>trace\<close> field of the state.
\<close>

subsection \<open>Exceptions\<close>

datatype exc =
    WebSocketDisconnect
  | JSONDecodeError
  | AttributeError
  | ValueError
  | RuntimeError
  | OperationalError

subsection \<open>Strings: \<^verbatim>\<open>str.lower\<close> and the \<^verbatim>\<open>in\<close> operator\<close>

text \<open>
  \<^verbatim>\<open>str.lower\<close> on the letters A to Z; every other character is left as it is. This is
  also what \<^verbatim>\<open>lower()\<close> of SQLite does. Python folds letters outside ASCII as well,
  which does not change whether a word of the denylist of \<open>moderate_message\<close> occurs.
\<close>

definition lower_char :: "char \<Rightarrow> char" where
  "lower_char c =
     (let n = (of_char c :: nat) in if 65 \<le> n \<and> n \<le> 90 then char_of (n + 32) else c)"

definition lower :: "string \<Rightarrow> string" where
  "lower s = map lower_char s"

text \<open>\<^verbatim>\<open>s.startswith(w)\<close> and \<^verbatim>\<open>w in s\<close> on strings.\<close>

fun startswith :: "string \<Rightarrow> string \<Rightarrow> bool" where
  "startswith s [] = True"
| "startswith [] (c # w) = False"
| "startswith (d # s) (c # w) = (d = c \<and> startswith s w)"

fun str_contains :: "string \<Rightarrow> string \<Rightarrow> bool" where
  "str_contains w [] = (w = [])"
| "str_contains w (c # s) = (startswith (c # s) w \<or> str_contains w s)"

subsection \<open>Content moderation\<close>

text \<open>
  The sentiment pipeline is an external model. It is a parameter of the embedding: a
  function from the text to the first (and, for one input text, only) element of the
  list the pipeline returns, a label and a score.
\<close>

record sentiment =
  label :: string
  score :: real

definition banned_words :: "string list" where
  "banned_words = [''spam'', ''scam'', ''advertisement'']"

text \<open>The \<^verbatim>\<open>for word in banned_words\<close> loop, returning at the first hit.\<close>

fun banned_hit :: "string list \<Rightarrow> string \<Rightarrow> bool" where
  "banned_hit [] lower_content = False"
| "banned_hit (word # ws) lower_content =
     (if str_contains word lower_content then True else banned_hit ws lower_content)"

text \<open>
  \<^verbatim>\<open>moderate_message\<close>: the result (True: the message is flagged) together with the
  list of texts the pipeline was called on, in order.
\<close>

definition moderate_message :: "(string \<Rightarrow> sentiment) \<Rightarrow> string \<Rightarrow> bool \<times> string list" where
  "moderate_message sentiment_pipeline content =
     (let lower_content = lower content in
      if banned_hit banned_words lower_content then (True, [])
      else
        let sentiment = sentiment_pipeline content in
        if label sentiment = ''NEGATIVE'' \<and> score sentiment > 0.95 then (True, [content])
        else (False, [content]))"

subsection \<open>Wire messages, rows and the shared state\<close>

text \<open>
  A connection is the identity of a \<^verbatim>\<open>WebSocket\<close> object. The dictionaries the
  program sends (\<^verbatim>\<open>{"error": ...}\<close> and \<^verbatim>\<open>message_entry\<close>) have string keys and string
  values; they are association lists in insertion order.
\<close>

type_synonym conn = nat

type_synonym wire = "(string \<times> string) list"

record datetime =
  year :: nat
  month :: nat
  day :: nat
  hour :: nat
  minute :: nat
  second :: nat
  microsecond :: nat

text \<open>\<open>digits w n\<close>: the last \<open>w\<close> decimal digits of \<open>n\<close>, zero-padded.\<close>

fun digits :: "nat \<Rightarrow> nat \<Rightarrow> string" where
  "digits 0 n = []"
| "digits (Suc w) n = digits w (n div 10) @ [char_of (48 + n mod 10)]"

text \<open>
  \<^verbatim>\<open>datetime.isoformat()\<close> of a naive datetime: the fraction is printed only when the
  microseconds are not zero.
\<close>

definition isoformat :: "datetime \<Rightarrow> string" where
  "isoformat t =
     digits 4 (year t) @ ''-'' @ digits 2 (month t) @ ''-'' @ digits 2 (day t) @ ''T'' @
     digits 2 (hour t) @ '':'' @ digits 2 (minute t) @ '':'' @ digits 2 (second t) @
     (if microsecond t = 0 then [] else ''.'' @ digits 6 (microsecond t))"

text \<open>
  A row of the table \<^verbatim>\<open>messages\<close> (class \<^verbatim>\<open>Message\<close> of database.py). The fields carry
  the prefix \<open>msg_\<close>: \<open>id\<close> is the identity function of HOL.
\<close>

record Message =
  msg_id :: nat
  msg_sender :: string
  msg_content :: string
  msg_timestamp :: datetime

datatype event =
    PipelineCalled string
  | Accepted conn
  | Closed conn nat
  | Sent conn wire
  | SendRaised conn wire exc
  | ChatMessagesAppended wire
  | Committed Message
  | CommitRaised Message exc
  | BroadcastCalled wire
  | DbSessionClosed

text \<open>
  The state shared by all sessions: \<^verbatim>\<open>manager.active_connections\<close>, the module-level
  list \<^verbatim>\<open>chat_messages\<close>, the committed rows of the table in rowid order, and the trace.
  \<open>accepted\<close> is the state of the \<^verbatim>\<open>WebSocket\<close> objects: the connections whose
  handshake has been accepted, which are no longer in the state CONNECTING.
\<close>

record state =
  active_connections :: "conn list"
  accepted :: "conn set"
  chat_messages :: "wire list"
  messages :: "Message list"
  trace :: "event list"

text \<open>
  What the collaborators outside the repository answer: the sentiment pipeline, and for
  the channel and the database whether a call raises (\<open>None\<close>: it returns normally).
\<close>

record env =
  sentiment_pipeline :: "string \<Rightarrow> sentiment"
  accept_raises :: "conn \<Rightarrow> exc option"
  send_raises :: "conn \<Rightarrow> wire \<Rightarrow> exc option"
  commit_raises :: "Message \<Rightarrow> exc option"

definition emit :: "event list \<Rightarrow> state \<Rightarrow> state" where
  "emit es st = st\<lparr>trace := trace st @ es\<rparr>"

subsection \<open>The connection manager\<close>

text \<open>\<^verbatim>\<open>websocket.send_json(message)\<close>.\<close>

definition send_json :: "env \<Rightarrow> conn \<Rightarrow> wire \<Rightarrow> state \<Rightarrow> exc option \<times> state" where
  "send_json env c message st =
     (case send_raises env c message of
        None \<Rightarrow> (None, emit [Sent c message] st)
      | Some e \<Rightarrow> (Some e, emit [SendRaised c message e] st))"

text \<open>
  \<^verbatim>\<open>websocket.accept()\<close>. A \<^verbatim>\<open>WebSocket\<close> accepts once: on a connection that has been
  accepted the transport raises RuntimeError. On a fresh connection the handshake may
  raise for reasons of its own (\<open>accept_raises\<close>).
\<close>

definition accept :: "env \<Rightarrow> conn \<Rightarrow> state \<Rightarrow> exc option \<times> state" where
  "accept env websocket st =
     (if websocket \<in> accepted st then (Some RuntimeError, st)
      else case accept_raises env websocket of
             Some e \<Rightarrow> (Some e, st)
           | None \<Rightarrow>
               (None, emit [Accepted websocket]
                        (st\<lparr>accepted := insert websocket (accepted st)\<rparr>)))"

text \<open>\<^verbatim>\<open>ConnectionManager.connect\<close>: accept, then append.\<close>

definition connect :: "env \<Rightarrow> conn \<Rightarrow> state \<Rightarrow> exc option \<times> state" where
  "connect env websocket st =
     (case accept env websocket st of
        (Some e, st1) \<Rightarrow> (Some e, st1)
      | (None, st1) \<Rightarrow>
          (None, st1\<lparr>active_connections := active_connections st1 @ [websocket]\<rparr>))"

text \<open>\<^verbatim>\<open>list.remove(x)\<close>: removes the first occurrence, raises ValueError when there is none.\<close>

definition list_remove :: "'a \<Rightarrow> 'a list \<Rightarrow> exc + 'a list" where
  "list_remove x xs = (if x \<in> set xs then Inr (remove1 x xs) else Inl ValueError)"

text \<open>\<^verbatim>\<open>ConnectionManager.disconnect\<close>.\<close>

definition disconnect :: "conn \<Rightarrow> state \<Rightarrow> exc option \<times> state" where
  "disconnect websocket st =
     (if websocket \<in> set (active_connections st) then
        (case list_remove websocket (active_connections st) of
           Inl e \<Rightarrow> (Some e, st)
         | Inr xs \<Rightarrow> (None, st\<lparr>active_connections := xs\<rparr>))
      else (None, st))"

text \<open>
  \<^verbatim>\<open>ConnectionManager.broadcast\<close>: the \<^verbatim>\<open>for\<close> loop over the list; a send that raises
  ends the loop and the call.
\<close>

fun broadcast_loop :: "env \<Rightarrow> wire \<Rightarrow> conn list \<Rightarrow> state \<Rightarrow> exc option \<times> state" where
  "broadcast_loop env message [] st = (None, st)"
| "broadcast_loop env message (connection # cs) st =
     (case send_json env connection message st of
        (Some e, st') \<Rightarrow> (Some e, st')
      | (None, st') \<Rightarrow> broadcast_loop env message cs st')"

definition broadcast :: "env \<Rightarrow> wire \<Rightarrow> state \<Rightarrow> exc option \<times> state" where
  "broadcast env message st =
     broadcast_loop env message (active_connections st) (emit [BroadcastCalled message] st)"

text \<open>The events of a send of \<open>message\<close>, delivered or raised.\<close>

fun is_delivery :: "wire \<Rightarrow> event \<Rightarrow> bool" where
  "is_delivery message (Sent c m) = (m = message)"
| "is_delivery message (SendRaised c m e) = (m = message)"
| "is_delivery message _ = False"

text \<open>Sequences of manager operations.\<close>

datatype manager_op = Connect conn | Disconnect conn

fun apply_op :: "env \<Rightarrow> manager_op \<Rightarrow> state \<Rightarrow> state" where
  "apply_op env (Connect c) st = snd (connect env c st)"
| "apply_op env (Disconnect c) st = snd (disconnect c st)"

definition run_ops :: "env \<Rightarrow> manager_op list \<Rightarrow> state \<Rightarrow> state" where
  "run_ops env ops st = fold (apply_op env) ops st"

text \<open>
  What the manager keeps true: no connection is in the list twice, and every connection
  of the list has been accepted.
\<close>

definition registry_ok :: "state \<Rightarrow> bool" where
  "registry_ok st =
     (distinct (active_connections st) \<and> set (active_connections st) \<subseteq> accepted st)"

subsection \<open>Persistence\<close>

text \<open>
  \<^verbatim>\<open>id\<close> is an INTEGER PRIMARY KEY: a new row gets the largest id of the table plus one.
\<close>

definition next_id :: "Message list \<Rightarrow> nat" where
  "next_id rows = Suc (fold max (map msg_id rows) 0)"

text \<open>
  The row that \<^verbatim>\<open>Message(sender=..., content=..., timestamp=...)\<close> is when it is
  flushed to the table of the state.
\<close>

definition new_row :: "string \<Rightarrow> string \<Rightarrow> datetime \<Rightarrow> state \<Rightarrow> Message" where
  "new_row sender content timestamp st =
     \<lparr>msg_id = next_id (messages st), msg_sender = sender, msg_content = content,
      msg_timestamp = timestamp\<rparr>"

text \<open>
  \<^verbatim>\<open>db.add(db_message); db.commit(); db.refresh(db_message)\<close>: the row is in the table
  iff the commit did not raise.
\<close>

definition db_add_commit ::
  "env \<Rightarrow> string \<Rightarrow> string \<Rightarrow> datetime \<Rightarrow> state \<Rightarrow> exc option \<times> state" where
  "db_add_commit env sender content timestamp st =
     (let db_message = new_row sender content timestamp st
      in case commit_raises env db_message of
           Some e \<Rightarrow> (Some e, emit [CommitRaised db_message e] st)
         | None \<Rightarrow> (None, emit [Committed db_message] (st\<lparr>messages := messages st @ [db_message]\<rparr>)))"

subsection \<open>The receive loop of \<^verbatim>\<open>websocket_endpoint\<close>\<close>

text \<open>
  A decoded JSON value. \<open>JObj\<close> holds the items of the dict, whose keys are distinct;
  the value of a number is never looked at.
\<close>

datatype json =
    JNull
  | JBool bool
  | JNum int
  | JStr string
  | JArr "json list"
  | JObj "(string \<times> json) list"

text \<open>
  \<^verbatim>\<open>websocket.receive_json()\<close> returns the decoded value or raises (WebSocketDisconnect
  when the peer is gone, JSONDecodeError when the frame is not JSON).
\<close>

datatype received = Json json | Raises exc

text \<open>\<^verbatim>\<open>data.get(key, default)\<close>: only a dict has \<^verbatim>\<open>get\<close>.\<close>

fun dict_get :: "json \<Rightarrow> string \<Rightarrow> json \<Rightarrow> exc + json" where
  "dict_get (JObj kvs) k d = Inr (case map_of kvs k of None \<Rightarrow> d | Some v \<Rightarrow> v)"
| "dict_get _ k d = Inl AttributeError"

datatype outcome = Continue | Raised exc

definition error_feedback :: wire where
  "error_feedback = [(''error'', ''Message flagged as inappropriate.'')]"

definition message_entry :: "string \<Rightarrow> string \<Rightarrow> datetime \<Rightarrow> wire" where
  "message_entry sender content timestamp =
     [(''sender'', sender), (''content'', content), (''timestamp'', isoformat timestamp @ ''Z'')]"

text \<open>Lines 217 to 229: the entry, the in-memory list, the database, the broadcast.\<close>

definition publish :: "env \<Rightarrow> string \<Rightarrow> string \<Rightarrow> datetime \<Rightarrow> state \<Rightarrow> outcome \<times> state" where
  "publish env sender content timestamp st =
     (let entry = message_entry sender content timestamp;
          st1 = emit [ChatMessagesAppended entry] (st\<lparr>chat_messages := chat_messages st @ [entry]\<rparr>)
      in case db_add_commit env sender content timestamp st1 of
           (Some e, st2) \<Rightarrow> (Raised e, st2)
         | (None, st2) \<Rightarrow>
             (case broadcast env entry st2 of
                (Some e, st3) \<Rightarrow> (Raised e, st3)
              | (None, st3) \<Rightarrow> (Continue, st3)))"

text \<open>Lines 213 to 229, for a content that is a string.\<close>

definition moderate_then_publish ::
  "env \<Rightarrow> conn \<Rightarrow> string \<Rightarrow> string \<Rightarrow> datetime \<Rightarrow> state \<Rightarrow> outcome \<times> state" where
  "moderate_then_publish env websocket sender content timestamp st =
     (case moderate_message (sentiment_pipeline env) content of
        (flagged, calls) \<Rightarrow>
          let st1 = emit (map PipelineCalled calls) st in
          if flagged then
            (case send_json env websocket error_feedback st1 of
               (Some e, st2) \<Rightarrow> (Raised e, st2)
             | (None, st2) \<Rightarrow> (Continue, st2))
          else publish env sender content timestamp st1)"

text \<open>
  One iteration of \<^verbatim>\<open>while True\<close> (lines 208 to 229). The input is what
  \<^verbatim>\<open>receive_json\<close> gives and what \<^verbatim>\<open>utcnow()\<close> reads in this iteration. A content that
  is not a string has no \<^verbatim>\<open>lower\<close>: \<^verbatim>\<open>moderate_message\<close> raises AttributeError on it.
\<close>

definition loop_body ::
  "env \<Rightarrow> conn \<Rightarrow> string \<Rightarrow> state \<Rightarrow> received \<times> datetime \<Rightarrow> outcome \<times> state" where
  "loop_body env websocket sender st inp =
     (case inp of
        (Raises e, timestamp) \<Rightarrow> (Raised e, st)
      | (Json data, timestamp) \<Rightarrow>
          (case dict_get data ''content'' (JStr []) of
             Inl e \<Rightarrow> (Raised e, st)
           | Inr (JStr content) \<Rightarrow> moderate_then_publish env websocket sender content timestamp st
           | Inr _ \<Rightarrow> (Raised AttributeError, st)))"

text \<open>
  The loop over the inputs of the session. \<open>None\<close>: the inputs are used up and the loop
  is suspended in \<^verbatim>\<open>receive_json\<close>; \<open>Some e\<close>: the exception \<open>e\<close> has left the loop.
\<close>

fun receive_loop ::
  "env \<Rightarrow> conn \<Rightarrow> string \<Rightarrow> state \<Rightarrow> (received \<times> datetime) list \<Rightarrow> exc option \<times> state" where
  "receive_loop env websocket sender st [] = (None, st)"
| "receive_loop env websocket sender st (inp # inps) =
     (case loop_body env websocket sender st inp of
        (Continue, st') \<Rightarrow> receive_loop env websocket sender st' inps
      | (Raised e, st') \<Rightarrow> (Some e, st'))"

subsection \<open>The endpoint\<close>

record user =
  username :: string
  full_name :: string
  password :: "string option"

definition fake_users_db :: "string \<rightharpoonup> user" where
  "fake_users_db =
     [''student1@srm.edu.in'' \<mapsto>
        \<lparr>username = ''student1@srm.edu.in'', full_name = ''Student One'',
         password = Some ''password1''\<rparr>,
      ''student2@srm.edu.in'' \<mapsto>
        \<lparr>username = ''student2@srm.edu.in'', full_name = ''Student Two'',
         password = Some ''password2''\<rparr>]"

datatype endpoint_result =
    PolicyViolation
  | Suspended
  | Returned
  | Propagated exc

text \<open>
  \<^verbatim>\<open>websocket_endpoint\<close>. \<open>users\<close> is the user dictionary at the time of the call,
  \<open>token_list\<close> the values of the query parameter \<^verbatim>\<open>token\<close> (empty when there is none).
  Only WebSocketDisconnect is caught; \<^verbatim>\<open>finally\<close> closes the database session on every
  way out of the \<^verbatim>\<open>try\<close>.
\<close>

definition websocket_endpoint ::
  "env \<Rightarrow> (string \<rightharpoonup> user) \<Rightarrow> conn \<Rightarrow> string list \<Rightarrow> (received \<times> datetime) list \<Rightarrow> state
     \<Rightarrow> endpoint_result \<times> state" where
  "websocket_endpoint env users websocket token_list inps st =
     (case token_list of
        [] \<Rightarrow> (PolicyViolation, emit [Closed websocket 1008] st)
      | token # _ \<Rightarrow>
          (case users token of
             None \<Rightarrow> (PolicyViolation, emit [Closed websocket 1008] st)
           | Some current_user \<Rightarrow>
               (case connect env websocket st of
                  (Some e, st1) \<Rightarrow> (Propagated e, st1)
                | (None, st1) \<Rightarrow>
                    (case receive_loop env websocket (full_name current_user) st1 inps of
                       (None, st2) \<Rightarrow> (Suspended, st2)
                     | (Some e, st2) \<Rightarrow>
                         if e = WebSocketDisconnect then
                           (case disconnect websocket st2 of
                              (Some e', st3) \<Rightarrow> (Propagated e', emit [DbSessionClosed] st3)
                            | (None, st3) \<Rightarrow> (Returned, emit [DbSessionClosed] st3))
                         else (Propagated e, emit [DbSessionClosed] st2)))))"

subsection \<open>Search\<close>

text \<open>
  The SQL operator LIKE, pattern first: \<open>%\<close> stands for any run of characters, \<open>_\<close> for
  any one character; no escape character is in force.
\<close>

fun like :: "string \<Rightarrow> string \<Rightarrow> bool" where
  "like [] s = (s = [])"
| "like (p # ps) s =
     (if p = CHR ''%'' then
        (like ps s \<or> (case s of [] \<Rightarrow> False | c # cs \<Rightarrow> like (p # ps) cs))
      else
        (case s of
           [] \<Rightarrow> False
         | c # cs \<Rightarrow> (p = CHR ''_'' \<or> p = c) \<and> like ps cs))"

text \<open>
  SQLite's LIKE reads both operands as C strings: each ends before its first NUL
  character.
\<close>

definition c_str :: "string \<Rightarrow> string" where
  "c_str s = takeWhile (\<lambda>c. c \<noteq> CHR 0x00) s"

text \<open>
  \<^verbatim>\<open>column.ilike(pattern)\<close>, which the SQLite dialect renders as
  \<^verbatim>\<open>lower(column) LIKE lower(pattern)\<close>.
\<close>

definition ilike :: "string \<Rightarrow> string \<Rightarrow> bool" where
  "ilike column pattern = like (c_str (lower pattern)) (c_str (lower column))"

text \<open>
  \<^verbatim>\<open>search_messages\<close>, for a caller that \<^verbatim>\<open>get_current_user\<close> has let through: the rows
  that match, as the query without ORDER BY scans them (in rowid order), each formatted
  for the wire.
\<close>

definition search_rows :: "string \<Rightarrow> Message list \<Rightarrow> Message list" where
  "search_rows keyword rows =
     filter (\<lambda>msg. ilike (msg_content msg) (''%'' @ keyword @ ''%'')) rows"

definition search_messages :: "string \<Rightarrow> state \<Rightarrow> wire list" where
  "search_messages keyword st =
     map (\<lambda>msg. [(''sender'', msg_sender msg), (''content'', msg_content msg),
                 (''timestamp'', isoformat (msg_timestamp msg) @ ''Z'')])
         (search_rows keyword (messages st))"

subsection \<open>Example inputs\<close>

definition example_time :: datetime where
  "example_time =
     \<lparr>year = 2024, month = 1, day = 2, hour = 3, minute = 4, second = 5, microsecond = 0\<rparr>"

definition positive_pipeline :: "string \<Rightarrow> sentiment" where
  "positive_pipeline text = \<lparr>label = ''POSITIVE'', score = 0.99\<rparr>"

definition negative_pipeline :: "string \<Rightarrow> sentiment" where
  "negative_pipeline text = \<lparr>label = ''NEGATIVE'', score = 0.99\<rparr>"

text \<open>Nothing raises; the pipeline finds every text positive.\<close>

definition env_all_ok :: env where
  "env_all_ok =
     \<lparr>sentiment_pipeline = positive_pipeline, accept_raises = (\<lambda>c. None),
      send_raises = (\<lambda>c m. None), commit_raises = (\<lambda>r. None)\<rparr>"

text \<open>The pipeline finds every text negative with score 0.99.\<close>

definition env_negative :: env where
  "env_negative = env_all_ok\<lparr>sentiment_pipeline := negative_pipeline\<rparr>"

text \<open>Every commit raises.\<close>

definition env_commit_fails :: env where
  "env_commit_fails = env_all_ok\<lparr>commit_raises := (\<lambda>r. Some OperationalError)\<rparr>"

text \<open>The channel of connection 2 is broken: every send on it raises.\<close>

definition env_second_broken :: env where
  "env_second_broken =
     env_all_ok\<lparr>send_raises := (\<lambda>c m. if c = 2 then Some RuntimeError else None)\<rparr>"

definition empty_state :: state where
  "empty_state =
     \<lparr>active_connections = [], accepted = {}, chat_messages = [], messages = [], trace = []\<rparr>"

definition three_connections :: state where
  "three_connections =
     \<lparr>active_connections = [1, 2, 3], accepted = {1, 2, 3}, chat_messages = [], messages = [],
      trace = []\<rparr>"

definition example_row :: "nat \<Rightarrow> string \<Rightarrow> Message" where
  "example_row i content =
     \<lparr>msg_id = i, msg_sender = ''Student One'', msg_content = content,
      msg_timestamp = example_time\<rparr>"

subsection \<open>Helper lemmas on strings\<close>

lemma startswith_prefix: "startswith s w = prefix w s"
  by (induction s w rule: startswith.induct) auto

lemma str_contains_sublist: "str_contains w s = sublist w s"
  by (induction s) (auto simp: startswith_prefix sublist_Cons_right)

lemma banned_hit_iff: "banned_hit ws s = (\<exists>w \<in> set ws. sublist w s)"
  by (induction ws) (auto simp: str_contains_sublist)

subsection \<open>Helper lemmas on the trace\<close>

lemmas example_defs =
  env_all_ok_def env_negative_def env_commit_fails_def env_second_broken_def
  empty_state_def three_connections_def positive_pipeline_def
  negative_pipeline_def example_row_def

lemma emit_emit: "emit es (emit fs st) = emit (fs @ es) st"
  by (simp add: emit_def)

lemma emit_fields [simp]:
  "active_connections (emit es st) = active_connections st"
  "accepted (emit es st) = accepted st"
  "chat_messages (emit es st) = chat_messages st"
  "messages (emit es st) = messages st"
  "trace (emit es st) = trace st @ es"
  by (simp_all add: emit_def)

lemma broadcast_loop_all_sent:
  "\<forall>c \<in> set cs. send_raises env c m = None \<Longrightarrow>
   broadcast_loop env m cs st = (None, emit (map (\<lambda>c. Sent c m) cs) st)"
proof (induction cs arbitrary: st)
  case Nil
  then show ?case by (simp add: emit_def)
next
  case (Cons c cs)
  then show ?case by (simp add: send_json_def emit_emit)
qed

lemma broadcast_loop_first_raise:
  "\<forall>c \<in> set pre. send_raises env c m = None \<Longrightarrow> send_raises env b m = Some e \<Longrightarrow>
   broadcast_loop env m (pre @ b # post) st =
     (Some e, emit (map (\<lambda>c. Sent c m) pre @ [SendRaised b m e]) st)"
proof (induction pre arbitrary: st)
  case Nil
  then show ?case by (simp add: send_json_def)
next
  case (Cons c pre)
  then show ?case by (simp add: send_json_def emit_emit)
qed

section \<open>The claims\<close>

subsection \<open>C2: the two stages of moderation\<close>

text \<open>
  C2. For every pipeline and every text: when the lowercased text contains a word of the
  denylist, \<open>moderate_message\<close> flags the text and the pipeline is not called; otherwise
  the pipeline is called once, on the text, and the text is flagged iff the label is
  NEGATIVE and the score is above 0.95.
\<close>

theorem moderate_message_two_stage:
  "moderate_message pipeline content =
     (if \<exists>word \<in> set banned_words. sublist word (lower content) then (True, [])
      else (label (pipeline content) = ''NEGATIVE'' \<and> score (pipeline content) > 0.95,
            [content]))"
  by (simp add: moderate_message_def banned_hit_iff Let_def)

theorem moderate_message_two_stage_witness:
  "moderate_message negative_pipeline ''buy our scam product'' = (True, []) \<and>
   moderate_message negative_pipeline ''hello'' = (True, [''hello'']) \<and>
   moderate_message positive_pipeline ''hello'' = (False, [''hello''])"
  using moderate_message_two_stage [of negative_pipeline "''buy our scam product''"]
    moderate_message_two_stage [of negative_pipeline "''hello''"]
    moderate_message_two_stage [of positive_pipeline "''hello''"]
  by (simp add: banned_words_def lower_def lower_char_def example_defs
      flip: str_contains_sublist)

subsection \<open>C3: a broken channel during a broadcast\<close>

text \<open>
  C3, as the code has it. \<open>broadcast\<close> sends to the connections in the order of the list.
  When the send on connection \<open>b\<close> raises and the sends on the connections before it do
  not, the connections before \<open>b\<close> get the message, the exception of \<open>b\<close> leaves
  \<open>broadcast\<close>, no connection after \<open>b\<close> is sent anything, and the list of connections
  is what it was: \<open>b\<close> stays in it.
\<close>

theorem broadcast_stops_at_first_broken:
  assumes "active_connections st = pre @ b # post"
    and "\<forall>c \<in> set pre. send_raises env c message = None"
    and "send_raises env b message = Some e"
  shows "broadcast env message st =
           (Some e, emit (BroadcastCalled message # map (\<lambda>c. Sent c message) pre @
                         [SendRaised b message e]) st) \<and>
         active_connections (snd (broadcast env message st)) = pre @ b # post"
  using assms by (simp add: broadcast_def broadcast_loop_first_raise emit_emit)

theorem broadcast_stops_at_first_broken_witness:
  "broadcast env_second_broken error_feedback three_connections =
     (Some RuntimeError,
      emit [BroadcastCalled error_feedback, Sent 1 error_feedback,
           SendRaised 2 error_feedback RuntimeError] three_connections) \<and>
   active_connections (snd (broadcast env_second_broken error_feedback three_connections)) =
     [1, 2, 3]"
  using broadcast_stops_at_first_broken
    [of three_connections "[1]" 2 "[3]" env_second_broken error_feedback RuntimeError]
  by (simp add: example_defs)

text \<open>
  C3 as stated fails: of the connections 1, 2, 3 only 2 is broken, and the broadcast
  raises, leaves 2 in the list and sends nothing to 3.
\<close>

theorem broadcast_isolation_counterexample:
  "fst (broadcast env_second_broken error_feedback three_connections) = Some RuntimeError \<and>
   active_connections (snd (broadcast env_second_broken error_feedback three_connections)) =
     [1, 2, 3] \<and>
   trace (snd (broadcast env_second_broken error_feedback three_connections)) =
     [BroadcastCalled error_feedback, Sent 1 error_feedback,
      SendRaised 2 error_feedback RuntimeError]"
  by (simp add: broadcast_def send_json_def emit_def example_defs)

subsection \<open>Helper lemmas on the connection manager\<close>

lemma disconnect_eq:
  "disconnect ws st =
     (None, if ws \<in> set (active_connections st)
            then st\<lparr>active_connections := remove1 ws (active_connections st)\<rparr> else st)"
  by (simp add: disconnect_def list_remove_def)

lemma disconnect_connections:
  "active_connections (snd (disconnect ws st)) = remove1 ws (active_connections st)"
  by (simp add: disconnect_eq remove1_idem)

lemma disconnect_other_fields:
  "accepted (snd (disconnect ws st)) = accepted st"
  "chat_messages (snd (disconnect ws st)) = chat_messages st"
  "messages (snd (disconnect ws st)) = messages st"
  "trace (snd (disconnect ws st)) = trace st"
  by (simp_all add: disconnect_eq)

lemma count_list_zero_iff: "count_list xs x = 0 \<longleftrightarrow> x \<notin> set xs"
  by (induction xs) auto

lemma remove1_fixed_iff: "remove1 x xs = xs \<longleftrightarrow> x \<notin> set xs"
proof
  assume eq: "remove1 x xs = xs"
  show "x \<notin> set xs"
  proof
    assume "x \<in> set xs"
    then have "length (remove1 x xs) < length xs"
      using length_pos_if_in_set [of x xs] by (simp add: length_remove1)
    with eq show False by simp
  qed
qed (simp add: remove1_idem)

lemma remove1_twice_same:
  "remove1 x (remove1 x xs) = remove1 x xs \<longleftrightarrow> count_list xs x \<le> 1"
  by (induction xs) (auto simp: count_list_zero_iff remove1_fixed_iff)

lemma distinct_remove1_twice:
  "distinct xs \<Longrightarrow> remove1 x (remove1 x xs) = remove1 x xs"
  by (simp add: remove1_fixed_iff)

lemma state_eqI:
  "active_connections s = active_connections t \<Longrightarrow> accepted s = accepted t \<Longrightarrow>
   chat_messages s = chat_messages t \<Longrightarrow> messages s = messages t \<Longrightarrow>
   trace s = trace t \<Longrightarrow> s = (t :: state)"
  by simp

lemma disconnect_twice_distinct:
  assumes "distinct (active_connections st)"
  shows "disconnect ws (snd (disconnect ws st)) = (None, snd (disconnect ws st))"
proof -
  have "snd (disconnect ws (snd (disconnect ws st))) = snd (disconnect ws st)"
    using assms
    by (intro state_eqI)
      (simp_all add: disconnect_connections disconnect_other_fields distinct_remove1_twice)
  moreover have "fst (disconnect ws (snd (disconnect ws st))) = None"
    by (simp add: disconnect_eq)
  ultimately show ?thesis by (simp add: prod_eq_iff)
qed

lemma connect_accepted:
  "websocket \<in> accepted st \<Longrightarrow> connect env websocket st = (Some RuntimeError, st)"
  by (simp add: connect_def accept_def)

lemma connect_registry_ok: "registry_ok st \<Longrightarrow> registry_ok (snd (connect env c st))"
  by (auto simp: registry_ok_def connect_def accept_def split: option.splits)

lemma disconnect_registry_ok: "registry_ok st \<Longrightarrow> registry_ok (snd (disconnect c st))"
  by (auto simp: registry_ok_def disconnect_eq dest: notin_set_remove1)

lemma run_ops_registry_ok: "registry_ok st \<Longrightarrow> registry_ok (run_ops env ops st)"
  unfolding run_ops_def
proof (induction ops arbitrary: st)
  case Nil
  then show ?case by simp
next
  case (Cons op ops)
  then show ?case
    by (cases op) (simp_all add: connect_registry_ok disconnect_registry_ok)
qed

lemma empty_registry_ok: "active_connections st = [] \<Longrightarrow> registry_ok st"
  by (simp add: registry_ok_def)

subsection \<open>C8: disconnect twice\<close>

text \<open>
  C8. \<open>disconnect\<close> never raises, and on a connection that is not in the list it changes
  nothing. On every list without duplicates, and so on every state that connects and
  disconnects lead to from an empty list, a second \<open>disconnect\<close> of the same connection
  raises nothing and leaves the state as the first call left it.
\<close>

theorem disconnect_idempotent:
  "fst (disconnect ws st) = None \<and>
   (ws \<notin> set (active_connections st) \<longrightarrow> disconnect ws st = (None, st)) \<and>
   (distinct (active_connections st) \<longrightarrow>
      disconnect ws (snd (disconnect ws st)) = (None, snd (disconnect ws st))) \<and>
   (active_connections st0 = [] \<longrightarrow>
      disconnect ws (snd (disconnect ws (run_ops env ops st0))) =
        (None, snd (disconnect ws (run_ops env ops st0))))"
proof -
  have "active_connections st0 = [] \<Longrightarrow> distinct (active_connections (run_ops env ops st0))"
    using run_ops_registry_ok [OF empty_registry_ok, of st0 env ops]
    by (simp add: registry_ok_def)
  then show ?thesis
    by (simp add: disconnect_twice_distinct) (simp add: disconnect_eq)
qed

theorem disconnect_idempotent_witness:
  "fst (disconnect 2 three_connections) = None \<and>
   disconnect 7 three_connections = (None, three_connections) \<and>
   disconnect 2 (snd (disconnect 2 three_connections)) =
     (None, snd (disconnect 2 three_connections)) \<and>
   active_connections (snd (disconnect 2 three_connections)) = [1, 3] \<and>
   disconnect 1 (snd (disconnect 1 (run_ops env_all_ok [Connect 1, Connect 2] empty_state))) =
     (None, snd (disconnect 1 (run_ops env_all_ok [Connect 1, Connect 2] empty_state))) \<and>
   active_connections
     (snd (disconnect 1 (run_ops env_all_ok [Connect 1, Connect 2] empty_state))) = [2]"
  using disconnect_idempotent [of 2 three_connections empty_state env_all_ok "[Connect 1, Connect 2]"]
    disconnect_idempotent [of 7 three_connections empty_state env_all_ok "[Connect 1, Connect 2]"]
    disconnect_idempotent [of 1 three_connections empty_state env_all_ok "[Connect 1, Connect 2]"]
  by (simp add: example_defs disconnect_connections)
    (simp add: run_ops_def connect_def accept_def disconnect_eq emit_def example_defs)

subsection \<open>C9: connect and duplicates\<close>

text \<open>
  C9. From an empty list, after every sequence of connects and disconnects no connection
  is in the list twice, and a connect of a connection that is in the list fails: the
  accept raises RuntimeError, nothing is appended and the state is as before.
\<close>

theorem connect_keeps_connections_distinct:
  assumes "active_connections st0 = []"
  shows "distinct (active_connections (run_ops env ops st0)) \<and>
         (\<forall>ws \<in> set (active_connections (run_ops env ops st0)).
            connect env ws (run_ops env ops st0) = (Some RuntimeError, run_ops env ops st0))"
proof -
  have "registry_ok (run_ops env ops st0)"
    using assms by (simp add: run_ops_registry_ok empty_registry_ok)
  then show ?thesis
    by (auto simp: registry_ok_def intro: connect_accepted)
qed

theorem connect_keeps_connections_distinct_witness:
  "active_connections (run_ops env_all_ok [Connect 1, Connect 1] empty_state) = [1] \<and>
   active_connections
     (run_ops env_all_ok [Connect 1, Connect 2, Disconnect 1, Connect 1, Connect 3] empty_state) =
     [2, 3] \<and>
   distinct (active_connections
     (run_ops env_all_ok [Connect 1, Connect 2, Disconnect 1, Connect 1, Connect 3] empty_state)) \<and>
   connect env_all_ok 1 (run_ops env_all_ok [Connect 1] empty_state) =
     (Some RuntimeError, run_ops env_all_ok [Connect 1] empty_state)"
  using connect_keeps_connections_distinct
    [of empty_state env_all_ok "[Connect 1, Connect 2, Disconnect 1, Connect 1, Connect 3]"]
    connect_keeps_connections_distinct [of empty_state env_all_ok "[Connect 1]"]
  by (simp add: run_ops_def connect_def accept_def disconnect_eq emit_def example_defs)


subsection \<open>Helper lemmas on one iteration of the receive loop\<close>

lemma broadcast_loop_log:
  "\<exists>r ds. broadcast_loop env m cs st = (r, emit ds st) \<and> list_all (is_delivery m) ds"
proof (induction cs arbitrary: st)
  case Nil
  have "broadcast_loop env m [] st = (None, emit [] st) \<and> list_all (is_delivery m) []"
    by (simp add: emit_def)
  then show ?case by blast
next
  case (Cons c cs)
  show ?case
  proof (cases "send_raises env c m")
    case None
    from Cons [of "emit [Sent c m] st"] obtain r ds where
      "broadcast_loop env m cs (emit [Sent c m] st) = (r, emit ds (emit [Sent c m] st))"
      "list_all (is_delivery m) ds" by blast
    with None have "broadcast_loop env m (c # cs) st = (r, emit (Sent c m # ds) st)
      \<and> list_all (is_delivery m) (Sent c m # ds)"
      by (simp add: send_json_def emit_emit)
    then show ?thesis by blast
  next
    case (Some e)
    then have "broadcast_loop env m (c # cs) st = (Some e, emit [SendRaised c m e] st)
      \<and> list_all (is_delivery m) [SendRaised c m e]"
      by (simp add: send_json_def)
    then show ?thesis by blast
  qed
qed

lemma broadcast_log:
  "\<exists>r ds. broadcast env m st = (r, emit (BroadcastCalled m # ds) st) \<and> list_all (is_delivery m) ds"
proof -
  obtain r ds where
    "broadcast_loop env m (active_connections st) (emit [BroadcastCalled m] st) =
       (r, emit ds (emit [BroadcastCalled m] st))" "list_all (is_delivery m) ds"
    using broadcast_loop_log by blast
  then have "broadcast env m st = (r, emit (BroadcastCalled m # ds) st) \<and> list_all (is_delivery m) ds"
    by (simp add: broadcast_def emit_emit)
  then show ?thesis by blast
qed

lemma publish_commit_raises:
  "commit_raises env (new_row sender content ts st) = Some e \<Longrightarrow>
   publish env sender content ts st =
     (Raised e,
      emit [ChatMessagesAppended (message_entry sender content ts),
           CommitRaised (new_row sender content ts st) e]
        (st\<lparr>chat_messages := chat_messages st @ [message_entry sender content ts]\<rparr>))"
  by (simp add: publish_def db_add_commit_def Let_def new_row_def emit_def)

lemma publish_commit_ok:
  assumes "commit_raises env (new_row sender content ts st) = None"
  shows "\<exists>r ds. publish env sender content ts st =
     (r, emit ([ChatMessagesAppended (message_entry sender content ts),
           Committed (new_row sender content ts st),
           BroadcastCalled (message_entry sender content ts)] @ ds)
        (st\<lparr>chat_messages := chat_messages st @ [message_entry sender content ts],
            messages := messages st @ [new_row sender content ts st]\<rparr>))
     \<and> list_all (is_delivery (message_entry sender content ts)) ds"
proof -
  let ?entry = "message_entry sender content ts"
  let ?row = "new_row sender content ts st"
  let ?st2 = "emit [ChatMessagesAppended ?entry, Committed ?row]
        (st\<lparr>chat_messages := chat_messages st @ [?entry], messages := messages st @ [?row]\<rparr>)"
  have eq: "publish env sender content ts st =
    (case broadcast env ?entry ?st2 of (Some e, st3) \<Rightarrow> (Raised e, st3) | (None, st3) \<Rightarrow> (Continue, st3))"
    using assms by (simp add: publish_def db_add_commit_def Let_def new_row_def emit_def)
  obtain r ds where b: "broadcast env ?entry ?st2 = (r, emit (BroadcastCalled ?entry # ds) ?st2)"
    and d: "list_all (is_delivery ?entry) ds"
    using broadcast_log by blast
  have "publish env sender content ts st =
     ((case r of Some e \<Rightarrow> Raised e | None \<Rightarrow> Continue), emit (BroadcastCalled ?entry # ds) ?st2)"
    by (simp add: eq b split: option.splits)
  then show ?thesis using d by (auto simp: emit_emit)
qed


lemma loop_body_string_content:
  "dict_get data ''content'' (JStr []) = Inr (JStr content) \<Longrightarrow>
   loop_body env ws sender st (Json data, ts) = moderate_then_publish env ws sender content ts st"
  by (simp add: loop_body_def)

lemma moderate_then_publish_allowed:
  "fst (moderate_message (sentiment_pipeline env) content) = False \<Longrightarrow>
   moderate_then_publish env ws sender content ts st =
     publish env sender content ts
       (emit (map PipelineCalled (snd (moderate_message (sentiment_pipeline env) content))) st)"
  by (cases "moderate_message (sentiment_pipeline env) content")
    (simp add: moderate_then_publish_def Let_def)

lemma moderate_then_publish_flagged:
  "fst (moderate_message (sentiment_pipeline env) content) = True \<Longrightarrow>
   moderate_then_publish env ws sender content ts st =
     (case send_json env ws error_feedback
             (emit (map PipelineCalled (snd (moderate_message (sentiment_pipeline env) content))) st) of
        (Some e, st2) \<Rightarrow> (Raised e, st2)
      | (None, st2) \<Rightarrow> (Continue, st2))"
  by (cases "moderate_message (sentiment_pipeline env) content")
    (simp add: moderate_then_publish_def Let_def)

lemma new_row_emit [simp]: "new_row sender content ts (emit es st) = new_row sender content ts st"
  by (simp add: new_row_def)

lemma emit_chat_messages_update:
  "(emit es st)\<lparr>chat_messages := xs\<rparr> = emit es (st\<lparr>chat_messages := xs\<rparr>)"
  by (simp add: emit_def)

lemmas body_defs = loop_body_def moderate_then_publish_def publish_def db_add_commit_def
  new_row_def next_id_def broadcast_def send_json_def emit_def moderate_message_def
  banned_words_def lower_def lower_char_def Let_def

subsection \<open>C1: the commit, then the broadcast\<close>

text \<open>
  C1, as the code has it. For a message that moderation lets through, the commit is
  attempted before \<open>broadcast\<close> is called. When the commit raises, \<open>broadcast\<close> is not
  called and nothing is sent to any connection, the sender included: the trace of the
  iteration ends with the commit that raised, the exception leaves the receive loop and the
  inputs that follow are not read. When the commit returns, the trace goes on with the
  call of \<open>broadcast\<close> and then only with sends of the entry.
\<close>

theorem commit_before_broadcast_fail_closed:
  assumes "dict_get data ''content'' (JStr []) = Inr (JStr content)"
    and "fst (moderate_message (sentiment_pipeline env) content) = False"
  shows
    "(\<forall>e. commit_raises env (new_row sender content ts st) = Some e \<longrightarrow>
        loop_body env ws sender st (Json data, ts) =
          (Raised e,
           emit (map PipelineCalled (snd (moderate_message (sentiment_pipeline env) content)) @
                 [ChatMessagesAppended (message_entry sender content ts),
                  CommitRaised (new_row sender content ts st) e])
             (st\<lparr>chat_messages := chat_messages st @ [message_entry sender content ts]\<rparr>)) \<and>
        fst (receive_loop env ws sender st ((Json data, ts) # rest)) = Some e \<and>
        snd (receive_loop env ws sender st ((Json data, ts) # rest)) =
          snd (loop_body env ws sender st (Json data, ts))) \<and>
     (commit_raises env (new_row sender content ts st) = None \<longrightarrow>
        (\<exists>ds. trace (snd (loop_body env ws sender st (Json data, ts))) =
                trace st @
                map PipelineCalled (snd (moderate_message (sentiment_pipeline env) content)) @
                [ChatMessagesAppended (message_entry sender content ts),
                 Committed (new_row sender content ts st),
                 BroadcastCalled (message_entry sender content ts)] @ ds \<and>
              list_all (is_delivery (message_entry sender content ts)) ds))"
proof (intro conjI allI impI)
  fix e
  assume c: "commit_raises env (new_row sender content ts st) = Some e"
  let ?calls = "snd (moderate_message (sentiment_pipeline env) content)"
  have p: "publish env sender content ts (emit (map PipelineCalled ?calls) st) =
     (Raised e,
      emit (map PipelineCalled ?calls @
                 [ChatMessagesAppended (message_entry sender content ts),
                  CommitRaised (new_row sender content ts st) e])
             (st\<lparr>chat_messages := chat_messages st @ [message_entry sender content ts]\<rparr>))"
    using publish_commit_raises [of env sender content ts "emit (map PipelineCalled ?calls) st" e] c
    by (simp add: emit_chat_messages_update emit_emit)
  show b: "loop_body env ws sender st (Json data, ts) =
          (Raised e,
           emit (map PipelineCalled ?calls @
                 [ChatMessagesAppended (message_entry sender content ts),
                  CommitRaised (new_row sender content ts st) e])
             (st\<lparr>chat_messages := chat_messages st @ [message_entry sender content ts]\<rparr>))"
    using assms p by (simp add: loop_body_string_content moderate_then_publish_allowed)
  show "fst (receive_loop env ws sender st ((Json data, ts) # rest)) = Some e"
    by (simp add: b)
  show "snd (receive_loop env ws sender st ((Json data, ts) # rest)) =
          snd (loop_body env ws sender st (Json data, ts))"
    by (simp add: b)
next
  assume c: "commit_raises env (new_row sender content ts st) = None"
  let ?calls = "snd (moderate_message (sentiment_pipeline env) content)"
  obtain r ds where p: "publish env sender content ts (emit (map PipelineCalled ?calls) st) =
     (r, emit ([ChatMessagesAppended (message_entry sender content ts),
           Committed (new_row sender content ts st),
           BroadcastCalled (message_entry sender content ts)] @ ds)
        ((emit (map PipelineCalled ?calls) st)
           \<lparr>chat_messages := chat_messages (emit (map PipelineCalled ?calls) st) @ [message_entry sender content ts],
            messages := messages (emit (map PipelineCalled ?calls) st) @ [new_row sender content ts st]\<rparr>))"
    and d: "list_all (is_delivery (message_entry sender content ts)) ds"
    using publish_commit_ok [of env sender content ts "emit (map PipelineCalled ?calls) st"] c
    by auto
  have "trace (snd (loop_body env ws sender st (Json data, ts))) =
                trace st @ map PipelineCalled ?calls @
                [ChatMessagesAppended (message_entry sender content ts),
                 Committed (new_row sender content ts st),
                 BroadcastCalled (message_entry sender content ts)] @ ds"
    using assms p by (simp add: loop_body_string_content moderate_then_publish_allowed emit_def)
  with d show "\<exists>ds. trace (snd (loop_body env ws sender st (Json data, ts))) =
                trace st @ map PipelineCalled ?calls @
                [ChatMessagesAppended (message_entry sender content ts),
                 Committed (new_row sender content ts st),
                 BroadcastCalled (message_entry sender content ts)] @ ds \<and>
              list_all (is_delivery (message_entry sender content ts)) ds"
    by blast
qed

theorem commit_before_broadcast_fail_closed_witness:
  "loop_body env_commit_fails 1 ''Student One'' three_connections
       (Json (JObj [(''content'', JStr ''hi'')]), example_time) =
     (Raised OperationalError,
      emit [PipelineCalled ''hi'',
            ChatMessagesAppended (message_entry ''Student One'' ''hi'' example_time),
            CommitRaised (example_row 1 ''hi'') OperationalError]
        (three_connections\<lparr>chat_messages := [message_entry ''Student One'' ''hi'' example_time]\<rparr>)) \<and>
   fst (receive_loop env_commit_fails 1 ''Student One'' three_connections
       [(Json (JObj [(''content'', JStr ''hi'')]), example_time),
        (Json (JObj [(''content'', JStr ''again'')]), example_time)]) = Some OperationalError \<and>
   trace (snd (loop_body env_all_ok 1 ''Student One'' three_connections
       (Json (JObj [(''content'', JStr ''hi'')]), example_time))) =
     [PipelineCalled ''hi'',
      ChatMessagesAppended (message_entry ''Student One'' ''hi'' example_time),
      Committed (example_row 1 ''hi''),
      BroadcastCalled (message_entry ''Student One'' ''hi'' example_time),
      Sent 1 (message_entry ''Student One'' ''hi'' example_time),
      Sent 2 (message_entry ''Student One'' ''hi'' example_time),
      Sent 3 (message_entry ''Student One'' ''hi'' example_time)]"
  using commit_before_broadcast_fail_closed
    [of "JObj [(''content'', JStr ''hi'')]" "''hi''" env_commit_fails "''Student One''"
        example_time three_connections 1
        "[(Json (JObj [(''content'', JStr ''again'')]), example_time)]"]
  by (simp add: body_defs example_defs)

text \<open>
  C1 as stated fails where it says that the failure is reported to the sender and the
  loop continues: with a commit that raises, the iteration raises, its trace holds no send
  at all, and the loop ends with the message that follows unread.
\<close>

theorem commit_failure_ends_session_counterexample:
  "fst (loop_body env_commit_fails 1 ''Student One'' three_connections
       (Json (JObj [(''content'', JStr ''hi'')]), example_time)) = Raised OperationalError \<and>
   trace (snd (loop_body env_commit_fails 1 ''Student One'' three_connections
       (Json (JObj [(''content'', JStr ''hi'')]), example_time))) =
     [PipelineCalled ''hi'',
      ChatMessagesAppended (message_entry ''Student One'' ''hi'' example_time),
      CommitRaised (example_row 1 ''hi'') OperationalError] \<and>
   receive_loop env_commit_fails 1 ''Student One'' three_connections
       [(Json (JObj [(''content'', JStr ''hi'')]), example_time),
        (Json (JObj [(''content'', JStr ''again'')]), example_time)] =
     (Some OperationalError,
      snd (loop_body env_commit_fails 1 ''Student One'' three_connections
       (Json (JObj [(''content'', JStr ''hi'')]), example_time)))"
  by (simp add: body_defs example_defs)

subsection \<open>C5: a flagged message\<close>

text \<open>
  C5, as the code has it. For a message that moderation flags, the iteration changes
  nothing of the state but the trace, which gains the calls of the pipeline that
  moderation made and one send of \<^verbatim>\<open>{"error": "Message flagged as inappropriate."}\<close> on
  the connection of the sender, delivered or raised. So nothing is sent to another
  connection, nothing is committed or broadcast and no connection is removed. When the
  send returns the loop goes on with the next input; when the send raises, the exception
  leaves the loop and the inputs that follow are not read.
\<close>

theorem rejected_message_feedback_to_sender_only:
  assumes "dict_get data ''content'' (JStr []) = Inr (JStr content)"
    and "fst (moderate_message (sentiment_pipeline env) content) = True"
  shows
    "snd (loop_body env ws sender st (Json data, ts)) =
       emit (map PipelineCalled (snd (moderate_message (sentiment_pipeline env) content)) @
             [case send_raises env ws error_feedback of
                None \<Rightarrow> Sent ws error_feedback
              | Some e \<Rightarrow> SendRaised ws error_feedback e]) st \<and>
     (send_raises env ws error_feedback = None \<longrightarrow>
        fst (loop_body env ws sender st (Json data, ts)) = Continue \<and>
        receive_loop env ws sender st ((Json data, ts) # rest) =
          receive_loop env ws sender (snd (loop_body env ws sender st (Json data, ts))) rest) \<and>
     (\<forall>e. send_raises env ws error_feedback = Some e \<longrightarrow>
        fst (loop_body env ws sender st (Json data, ts)) = Raised e \<and>
        receive_loop env ws sender st ((Json data, ts) # rest) =
          (Some e, snd (loop_body env ws sender st (Json data, ts))))"
proof (cases "send_raises env ws error_feedback")
  case None
  then have "loop_body env ws sender st (Json data, ts) =
       (Continue,
        emit (map PipelineCalled (snd (moderate_message (sentiment_pipeline env) content)) @
              [Sent ws error_feedback]) st)"
    using assms
    by (simp add: loop_body_string_content moderate_then_publish_flagged send_json_def emit_emit)
  with None show ?thesis by simp
next
  case (Some e)
  then have "loop_body env ws sender st (Json data, ts) =
       (Raised e,
        emit (map PipelineCalled (snd (moderate_message (sentiment_pipeline env) content)) @
              [SendRaised ws error_feedback e]) st)"
    using assms
    by (simp add: loop_body_string_content moderate_then_publish_flagged send_json_def emit_emit)
  with Some show ?thesis by simp
qed

theorem rejected_message_feedback_to_sender_only_witness:
  "loop_body env_all_ok 1 ''Student One'' three_connections
       (Json (JObj [(''content'', JStr ''buy our scam product'')]), example_time) =
     (Continue, emit [Sent 1 error_feedback] three_connections) \<and>
   loop_body env_negative 1 ''Student One'' three_connections
       (Json (JObj [(''content'', JStr ''hi'')]), example_time) =
     (Continue, emit [PipelineCalled ''hi'', Sent 1 error_feedback] three_connections) \<and>
   receive_loop env_negative 1 ''Student One'' three_connections
       [(Json (JObj [(''content'', JStr ''hi'')]), example_time)] =
     (None, emit [PipelineCalled ''hi'', Sent 1 error_feedback] three_connections) \<and>
   loop_body env_second_broken 2 ''Student Two'' three_connections
       (Json (JObj [(''content'', JStr ''buy our scam product'')]), example_time) =
     (Raised RuntimeError, emit [SendRaised 2 error_feedback RuntimeError] three_connections)"
  using rejected_message_feedback_to_sender_only
    [of "JObj [(''content'', JStr ''buy our scam product'')]" "''buy our scam product''"
        env_all_ok 1 "''Student One''" three_connections example_time "[]"]
    rejected_message_feedback_to_sender_only
    [of "JObj [(''content'', JStr ''hi'')]" "''hi''"
        env_negative 1 "''Student One''" three_connections example_time "[]"]
    rejected_message_feedback_to_sender_only
    [of "JObj [(''content'', JStr ''buy our scam product'')]" "''buy our scam product''"
        env_second_broken 2 "''Student Two''" three_connections example_time "[]"]
  by (simp add: body_defs example_defs)

text \<open>
  C5 as stated fails where it says that the loop continues for every flagged message:
  when the send of the feedback on the sender's connection raises, the loop ends there
  and the message that follows is not read.
\<close>

theorem rejected_feedback_send_raises_counterexample:
  "receive_loop env_second_broken 2 ''Student Two'' three_connections
       [(Json (JObj [(''content'', JStr ''buy our scam product'')]), example_time),
        (Json (JObj [(''content'', JStr ''hi'')]), example_time)] =
     (Some RuntimeError, emit [SendRaised 2 error_feedback RuntimeError] three_connections)"
  by (simp add: body_defs example_defs)

subsection \<open>C10: the in-memory list\<close>

lemma send_json_chat_messages:
  "chat_messages (snd (send_json env c m st)) = chat_messages st"
  by (simp add: send_json_def split: option.splits)

lemma publish_chat_messages:
  "chat_messages (snd (publish env sender content ts st)) =
     chat_messages st @ [message_entry sender content ts]"
proof (cases "commit_raises env (new_row sender content ts st)")
  case None
  from publish_commit_ok [OF this] show ?thesis by auto
next
  case (Some e)
  from publish_commit_raises [OF this] show ?thesis by simp
qed

lemma moderate_then_publish_chat_messages:
  "prefix (chat_messages st) (chat_messages (snd (moderate_then_publish env ws sender content ts st)))"
proof (cases "fst (moderate_message (sentiment_pipeline env) content)")
  case True
  then show ?thesis
    by (simp add: moderate_then_publish_flagged send_json_def split: option.splits)
next
  case False
  then show ?thesis
    by (simp add: moderate_then_publish_allowed publish_chat_messages)
qed

lemma loop_body_chat_messages:
  "prefix (chat_messages st) (chat_messages (snd (loop_body env ws sender st inp)))"
  by (auto simp: loop_body_def moderate_then_publish_chat_messages
      split: prod.splits received.splits sum.splits json.splits)

lemma receive_loop_chat_messages:
  "prefix (chat_messages st) (chat_messages (snd (receive_loop env ws sender st inps)))"
proof (induction inps arbitrary: st)
  case Nil
  then show ?case by simp
next
  case (Cons inp inps)
  show ?case
  proof (cases "loop_body env ws sender st inp")
    case (Pair out st')
    have p: "prefix (chat_messages st) (chat_messages st')"
      using loop_body_chat_messages [of st env ws sender inp] Pair by simp
    show ?thesis
    proof (cases out)
      case Continue
      with Pair p Cons [of st'] show ?thesis by (auto intro: prefix_order.trans)
    next
      case (Raised e)
      with Pair p show ?thesis by simp
    qed
  qed
qed

lemma publish_trace:
  "\<exists>ds. trace (snd (publish env sender content ts st)) =
     trace st @
     [ChatMessagesAppended (message_entry sender content ts),
      (case commit_raises env (new_row sender content ts st) of
         None \<Rightarrow> Committed (new_row sender content ts st)
       | Some e \<Rightarrow> CommitRaised (new_row sender content ts st) e)] @ ds"
proof (cases "commit_raises env (new_row sender content ts st)")
  case None
  from publish_commit_ok [OF this] obtain r ds where
    "publish env sender content ts st =
     (r, emit ([ChatMessagesAppended (message_entry sender content ts),
           Committed (new_row sender content ts st),
           BroadcastCalled (message_entry sender content ts)] @ ds)
        (st\<lparr>chat_messages := chat_messages st @ [message_entry sender content ts],
            messages := messages st @ [new_row sender content ts st]\<rparr>))" by blast
  then have "trace (snd (publish env sender content ts st)) =
     trace st @
     [ChatMessagesAppended (message_entry sender content ts),
      Committed (new_row sender content ts st)] @ (BroadcastCalled (message_entry sender content ts) # ds)"
    by simp
  with None show ?thesis by (metis option.simps(4))
next
  case (Some e)
  from publish_commit_raises [OF this] have "trace (snd (publish env sender content ts st)) =
     trace st @
     [ChatMessagesAppended (message_entry sender content ts),
      CommitRaised (new_row sender content ts st) e] @ []" by simp
  with Some show ?thesis by (metis option.simps(5))
qed

text \<open>
  C10. For a message that moderation lets through, the iteration appends the entry to
  \<open>chat_messages\<close> whether or not the commit raises; in the trace the append comes
  right before the commit, made or raised; and whatever the loop reads afterwards, the
  list still starts with the old list followed by the entry.
\<close>

theorem chat_messages_append_precedes_commit:
  assumes "dict_get data ''content'' (JStr []) = Inr (JStr content)"
    and "fst (moderate_message (sentiment_pipeline env) content) = False"
  shows
    "chat_messages (snd (loop_body env ws sender st (Json data, ts))) =
       chat_messages st @ [message_entry sender content ts] \<and>
     (\<exists>ds. trace (snd (loop_body env ws sender st (Json data, ts))) =
        trace st @
        map PipelineCalled (snd (moderate_message (sentiment_pipeline env) content)) @
        [ChatMessagesAppended (message_entry sender content ts),
         (case commit_raises env (new_row sender content ts st) of
            None \<Rightarrow> Committed (new_row sender content ts st)
          | Some e \<Rightarrow> CommitRaised (new_row sender content ts st) e)] @ ds) \<and>
     prefix (chat_messages st @ [message_entry sender content ts])
       (chat_messages (snd (receive_loop env ws sender st ((Json data, ts) # rest))))"
proof -
  let ?calls = "snd (moderate_message (sentiment_pipeline env) content)"
  let ?st1 = "emit (map PipelineCalled ?calls) st"
  have body: "loop_body env ws sender st (Json data, ts) = publish env sender content ts ?st1"
    using assms by (simp add: loop_body_string_content moderate_then_publish_allowed)
  have cm: "chat_messages (snd (loop_body env ws sender st (Json data, ts))) =
       chat_messages st @ [message_entry sender content ts]"
    by (simp add: body publish_chat_messages)
  from publish_trace [of env sender content ts ?st1, unfolded new_row_emit]
  have tr: "\<exists>ds. trace (snd (loop_body env ws sender st (Json data, ts))) =
        trace st @ map PipelineCalled ?calls @
        [ChatMessagesAppended (message_entry sender content ts),
         (case commit_raises env (new_row sender content ts st) of
            None \<Rightarrow> Committed (new_row sender content ts st)
          | Some e \<Rightarrow> CommitRaised (new_row sender content ts st) e)] @ ds"
    by (simp add: body)
  have "prefix (chat_messages st @ [message_entry sender content ts])
       (chat_messages (snd (receive_loop env ws sender st ((Json data, ts) # rest))))"
  proof (cases "loop_body env ws sender st (Json data, ts)")
    case (Pair out st')
    with cm have st': "chat_messages st' = chat_messages st @ [message_entry sender content ts]"
      by simp
    show ?thesis
    proof (cases out)
      case Continue
      with Pair st' receive_loop_chat_messages [of st' env ws sender rest] show ?thesis by simp
    next
      case (Raised e)
      with Pair st' show ?thesis by simp
    qed
  qed
  with cm tr show ?thesis by blast
qed

theorem chat_messages_append_precedes_commit_witness:
  "chat_messages (snd (loop_body env_commit_fails 1 ''Student One'' three_connections
       (Json (JObj [(''content'', JStr ''hi'')]), example_time))) =
     [message_entry ''Student One'' ''hi'' example_time] \<and>
   messages (snd (loop_body env_commit_fails 1 ''Student One'' three_connections
       (Json (JObj [(''content'', JStr ''hi'')]), example_time))) = [] \<and>
   chat_messages (snd (receive_loop env_commit_fails 1 ''Student One'' three_connections
       [(Json (JObj [(''content'', JStr ''hi'')]), example_time),
        (Raises WebSocketDisconnect, example_time)])) =
     [message_entry ''Student One'' ''hi'' example_time]"
  using chat_messages_append_precedes_commit
    [of "JObj [(''content'', JStr ''hi'')]" "''hi''" env_commit_fails 1 "''Student One''"
        three_connections example_time "[(Raises WebSocketDisconnect, example_time)]"]
  by (simp add: body_defs example_defs)

subsection \<open>C7: payloads without a content\<close>

text \<open>
  C7, as the code has it. A JSON object without the key \<^verbatim>\<open>content\<close> is handled exactly as
  the object whose content is the empty string. A frame that \<^verbatim>\<open>receive_json\<close> cannot
  decode, a JSON value that is not an object, and every payload whose content is not a
  string are not handled as a message: the iteration raises and leaves the state, trace
  included, as it was, and the exception leaves the loop with the inputs that follow
  unread.
\<close>

theorem missing_content_is_empty_message:
  "(map_of kvs ''content'' = None \<longrightarrow>
      loop_body env ws sender st (Json (JObj kvs), ts) =
        loop_body env ws sender st (Json (JObj [(''content'', JStr [])]), ts)) \<and>
   loop_body env ws sender st (Raises e, ts) = (Raised e, st) \<and>
   receive_loop env ws sender st ((Raises e, ts) # rest) = (Some e, st) \<and>
   ((\<forall>kvs. data \<noteq> JObj kvs) \<longrightarrow>
      loop_body env ws sender st (Json data, ts) = (Raised AttributeError, st) \<and>
      receive_loop env ws sender st ((Json data, ts) # rest) = (Some AttributeError, st)) \<and>
   (dict_get payload ''content'' (JStr []) = Inr v \<and> (\<forall>s. v \<noteq> JStr s) \<longrightarrow>
      loop_body env ws sender st (Json payload, ts) = (Raised AttributeError, st) \<and>
      receive_loop env ws sender st ((Json payload, ts) # rest) = (Some AttributeError, st))"
proof -
  have a: "(\<forall>kvs. data \<noteq> JObj kvs) \<Longrightarrow>
      loop_body env ws sender st (Json data, ts) = (Raised AttributeError, st)"
    by (cases data) (simp_all add: loop_body_def)
  have b: "dict_get payload ''content'' (JStr []) = Inr v \<Longrightarrow> (\<forall>s. v \<noteq> JStr s) \<Longrightarrow>
      loop_body env ws sender st (Json payload, ts) = (Raised AttributeError, st)"
    by (cases v) (simp_all add: loop_body_def)
  show ?thesis using a b by (simp add: loop_body_def)
qed

theorem missing_content_is_empty_message_witness:
  "loop_body env_all_ok 1 ''Student One'' three_connections
       (Json (JObj [(''text'', JStr ''hi'')]), example_time) =
     loop_body env_all_ok 1 ''Student One'' three_connections
       (Json (JObj [(''content'', JStr [])]), example_time) \<and>
   receive_loop env_all_ok 1 ''Student One'' three_connections
     [(Raises JSONDecodeError, example_time),
      (Json (JObj [(''content'', JStr ''hi'')]), example_time)] =
     (Some JSONDecodeError, three_connections) \<and>
   receive_loop env_all_ok 1 ''Student One'' three_connections
     [(Json (JArr [JStr ''hi'']), example_time),
      (Json (JObj [(''content'', JStr ''hi'')]), example_time)] =
     (Some AttributeError, three_connections) \<and>
   receive_loop env_all_ok 1 ''Student One'' three_connections
     [(Json (JObj [(''content'', JNum 5), (''x'', JNum 1)]), example_time),
      (Json (JObj [(''content'', JStr ''hi'')]), example_time)] =
     (Some AttributeError, three_connections)"
  using missing_content_is_empty_message
    [where kvs = "[(''text'', JStr ''hi'')]" and env = env_all_ok and ws = 1
       and sender = "''Student One''" and st = three_connections and ts = example_time
       and e = JSONDecodeError
       and rest = "[(Json (JObj [(''content'', JStr ''hi'')]), example_time)]"
       and data = "JArr [JStr ''hi'']"
       and payload = "JObj [(''content'', JNum 5), (''x'', JNum 1)]" and v = "JNum 5"]
  by simp

text \<open>
  C7 as stated fails for a missing field: the empty object is moderated as the empty
  text, committed as a row and broadcast to the connections 1, 2 and 3, and the loop
  continues.
\<close>

theorem missing_content_processed_counterexample:
  "loop_body env_all_ok 1 ''Student One'' three_connections (Json (JObj []), example_time) =
     (Continue,
      \<lparr>active_connections = [1, 2, 3], accepted = {1, 2, 3},
       chat_messages = [message_entry ''Student One'' [] example_time],
       messages = [example_row 1 []],
       trace = [PipelineCalled [],
                ChatMessagesAppended (message_entry ''Student One'' [] example_time),
                Committed (example_row 1 []),
                BroadcastCalled (message_entry ''Student One'' [] example_time),
                Sent 1 (message_entry ''Student One'' [] example_time),
                Sent 2 (message_entry ''Student One'' [] example_time),
                Sent 3 (message_entry ''Student One'' [] example_time)]\<rparr>)"
  by (simp add: body_defs example_defs)

subsection \<open>C4: the ways out of the endpoint\<close>

text \<open>
  C4 at a frame that cannot be decoded: JSONDecodeError is not WebSocketDisconnect, so
  \<open>disconnect\<close> is not called; the database session is closed and the exception leaves
  the endpoint with connection 1 still in the list. On WebSocketDisconnect the
  connection is removed.
\<close>

theorem undecodable_frame_leaves_connection_registered:
  "websocket_endpoint env_all_ok fake_users_db 1 [''student1@srm.edu.in'']
       [(Raises JSONDecodeError, example_time)] empty_state =
     (Propagated JSONDecodeError,
      \<lparr>active_connections = [1], accepted = {1}, chat_messages = [], messages = [],
       trace = [Accepted 1, DbSessionClosed]\<rparr>) \<and>
   websocket_endpoint env_all_ok fake_users_db 1 [''student1@srm.edu.in'']
       [(Raises WebSocketDisconnect, example_time)] empty_state =
     (Returned,
      \<lparr>active_connections = [], accepted = {1}, chat_messages = [], messages = [],
       trace = [Accepted 1, DbSessionClosed]\<rparr>)"
  by (simp add: websocket_endpoint_def fake_users_db_def connect_def accept_def disconnect_eq
      loop_body_def emit_def example_defs)

subsection \<open>C6: search\<close>

text \<open>
  What the query does for a keyword in which neither a wildcard nor a NUL character
  occurs: \<open>like\<close> with the keyword between two \<open>%\<close> is the substring test, so the rows
  returned are exactly the rows whose lowercased content, read up to its first NUL
  character, contains the lowercased keyword; they come in the order of the table, which
  is ascending in the id, and a commit keeps the table so.
\<close>

lemma like_percent: "like ''%'' s"
  by (induction s) simp_all

lemma like_literal_prefix:
  "CHR ''%'' \<notin> set kw \<Longrightarrow> CHR ''_'' \<notin> set kw \<Longrightarrow> like (kw @ ''%'') s = prefix kw s"
proof (induction kw arbitrary: s)
  case Nil
  then show ?case using like_percent by simp
next
  case (Cons k ks)
  then show ?case by (cases s) auto
qed

lemma like_leading_percent: "like (CHR ''%'' # p) s = (\<exists>t. suffix t s \<and> like p t)"
proof (induction s)
  case Nil
  then show ?case by simp
next
  case (Cons c cs)
  have "like (CHR ''%'' # p) (c # cs) = (like p (c # cs) \<or> like (CHR ''%'' # p) cs)"
    by simp
  also have "\<dots> = (like p (c # cs) \<or> (\<exists>t. suffix t cs \<and> like p t))"
    using Cons by simp
  also have "\<dots> = (\<exists>t. suffix t (c # cs) \<and> like p t)"
    by (auto simp: suffix_Cons)
  finally show ?case .
qed

lemma like_substring:
  assumes "CHR ''%'' \<notin> set kw" and "CHR ''_'' \<notin> set kw"
  shows "like (CHR ''%'' # kw @ ''%'') s = sublist kw s"
proof -
  have "like (CHR ''%'' # kw @ ''%'') s = (\<exists>t. suffix t s \<and> like (kw @ ''%'') t)"
    by (rule like_leading_percent)
  also have "\<dots> = (\<exists>t. suffix t s \<and> prefix kw t)"
    using like_literal_prefix [OF assms] by simp
  finally show ?thesis by (simp add: sublist_altdef')
qed

lemma lower_char_range:
  "lower_char c = c \<or> (97 \<le> (of_char (lower_char c) :: nat) \<and> (of_char (lower_char c) :: nat) \<le> 122)"
  by (auto simp: lower_char_def Let_def)

lemma lower_char_not_wildcard:
  "lower_char c = CHR ''%'' \<longleftrightarrow> c = CHR ''%''" "lower_char c = CHR ''_'' \<longleftrightarrow> c = CHR ''_''"
  using lower_char_range [of c] by (auto simp: lower_char_def Let_def)

lemma lower_no_wildcard:
  "CHR ''%'' \<in> set (lower kw) \<longleftrightarrow> CHR ''%'' \<in> set kw"
  "CHR ''_'' \<in> set (lower kw) \<longleftrightarrow> CHR ''_'' \<in> set kw"
proof -
  have "(CHR ''%'' = lower_char c) = (CHR ''%'' = c)" "(CHR ''_'' = lower_char c) = (CHR ''_'' = c)"
    for c
    using lower_char_not_wildcard [of c] by auto
  then show "CHR ''%'' \<in> set (lower kw) \<longleftrightarrow> CHR ''%'' \<in> set kw"
    "CHR ''_'' \<in> set (lower kw) \<longleftrightarrow> CHR ''_'' \<in> set kw"
    by (induction kw) (simp_all add: lower_def)
qed

lemma lower_pattern: "lower (CHR ''%'' # keyword @ ''%'') = CHR ''%'' # lower keyword @ ''%''"
  by (simp add: lower_def lower_char_def)

lemma lower_char_not_nul: "lower_char c = CHR 0x00 \<longleftrightarrow> c = CHR 0x00"
  using lower_char_range [of c] by (auto simp: lower_char_def Let_def)

lemma lower_no_nul: "CHR 0x00 \<in> set (lower kw) \<longleftrightarrow> CHR 0x00 \<in> set kw"
proof -
  have "(CHR 0x00 = lower_char c) = (CHR 0x00 = c)" for c
    using lower_char_not_nul [of c] by auto
  then show ?thesis by (induction kw) (simp_all add: lower_def)
qed

lemma c_str_without_nul: "CHR 0x00 \<notin> set s \<Longrightarrow> c_str s = s"
  by (auto simp: c_str_def takeWhile_eq_all_conv)

lemma search_rows_without_wildcards:
  assumes "CHR ''%'' \<notin> set keyword" and "CHR ''_'' \<notin> set keyword"
    and "CHR 0x00 \<notin> set keyword"
  shows "search_rows keyword rows =
           filter (\<lambda>msg. sublist (lower keyword) (c_str (lower (msg_content msg)))) rows"
proof -
  have "c_str (lower (CHR ''%'' # keyword @ ''%'')) = CHR ''%'' # lower keyword @ ''%''"
    using assms(3) by (simp add: lower_pattern c_str_without_nul lower_no_nul)
  then show ?thesis
    using assms(1,2)
    by (simp add: search_rows_def ilike_def like_substring lower_no_wildcard
        del: like.simps)
qed

lemma search_rows_ascending:
  "sorted_wrt (<) (map msg_id rows) \<Longrightarrow> sorted_wrt (<) (map msg_id (search_rows keyword rows))"
  by (simp add: search_rows_def sorted_wrt_map sorted_wrt_filter)

lemma fold_max_upper: "x \<in> set xs \<Longrightarrow> x \<le> fold max xs (a :: nat)"
proof (induction xs arbitrary: a)
  case Nil
  then show ?case by simp
next
  case (Cons y ys)
  have mono: "a \<le> fold max ys a" for a :: nat
    by (induction ys arbitrary: a) (auto intro: order_trans [OF max.cobounded2])
  from Cons show ?case
    using mono [of "max y a"] by auto
qed

lemma next_id_above: "r \<in> set rows \<Longrightarrow> msg_id r < next_id rows"
  using fold_max_upper [of "msg_id r" "map msg_id rows" 0] by (simp add: next_id_def less_Suc_eq_le)

lemma db_add_commit_ascending:
  "sorted_wrt (<) (map msg_id (messages st)) \<Longrightarrow>
   sorted_wrt (<) (map msg_id (messages (snd (db_add_commit env sender content ts st))))"
  by (auto simp: db_add_commit_def Let_def new_row_def sorted_wrt_append next_id_above
      split: option.splits)

text \<open>
  C6 at the keyword \<^verbatim>\<open>100%\<close>: the \<open>%\<close> of the keyword is a wildcard of the pattern
  \<^verbatim>\<open>%100%%\<close>, and the row with the content \<^verbatim>\<open>100 of us\<close>, which does not contain the
  keyword, is returned.
\<close>

theorem search_wildcard_in_keyword:
  "search_messages ''100%''
     (empty_state\<lparr>messages := [example_row 1 ''100 of us'', example_row 2 ''bye'']\<rparr>) =
     [[(''sender'', ''Student One''), (''content'', ''100 of us''),
       (''timestamp'', isoformat example_time @ ''Z'')]] \<and>
   \<not> str_contains (lower ''100%'') (lower ''100 of us'')"
  by (simp add: search_messages_def search_rows_def ilike_def c_str_def lower_def lower_char_def
      example_defs)

end